theory Spec2Isabelle
  imports Complex_Main "HOL-Library.Sublist"
begin

section \<open>Python built-ins used by the training driver\<close>

text \<open>
  The driver \<^verbatim>\<open>train.py\<close> is a sequential script over the Keras API. The model below
  keeps its control flow, its integer arithmetic, its list operations and the order of its
  framework calls; the framework calls themselves are recorded as events of a trace.
  Exceptions are values of \<open>error\<close>.
\<close>

datatype error = AssertionError string | ValueError string | ZeroDivisionError

text \<open>\<^verbatim>\<open>s.startswith(p)\<close>.\<close>

definition startswith :: "string \<Rightarrow> string \<Rightarrow> bool" where
  "startswith s p = prefix p s"

text \<open>Truth value of an optional string: \<^verbatim>\<open>None\<close> and the empty string are false.\<close>

definition truthy :: "string option \<Rightarrow> bool" where
  "truthy v = (case v of None \<Rightarrow> False | Some s \<Rightarrow> s \<noteq> [])"

text \<open>
  A slice bound or an insertion index \<open>k\<close> on a list of length \<open>n\<close>: a negative index
  counts from the end, and the result is clamped to \<open>0..n\<close>.
\<close>

definition py_index :: "int \<Rightarrow> nat \<Rightarrow> nat" where
  "py_index k n = (if k < 0 then nat (max 0 (int n + k)) else min (nat k) n)"

text \<open>\<^verbatim>\<open>xs[:k]\<close> and \<^verbatim>\<open>xs[k:]\<close>.\<close>

definition slice_to :: "'a list \<Rightarrow> int \<Rightarrow> 'a list" where
  "slice_to xs k = take (py_index k (length xs)) xs"

definition slice_from :: "'a list \<Rightarrow> int \<Rightarrow> 'a list" where
  "slice_from xs k = drop (py_index k (length xs)) xs"

text \<open>\<^verbatim>\<open>xs.insert(i, x)\<close>.\<close>

definition py_insert :: "'a list \<Rightarrow> int \<Rightarrow> 'a \<Rightarrow> 'a list" where
  "py_insert xs i x = (let j = py_index i (length xs) in take j xs @ x # drop j xs)"

text \<open>\<^verbatim>\<open>xs.remove(x)\<close>: the first occurrence goes; \<^verbatim>\<open>ValueError\<close> when there is none.\<close>

definition py_remove :: "'a list \<Rightarrow> 'a \<Rightarrow> error + 'a list" where
  "py_remove xs x =
     (if x \<in> set xs then Inr (remove1 x xs)
      else Inl (ValueError ''list.remove(x): x not in list''))"

text \<open>\<^verbatim>\<open>int(x)\<close> of a finite float: truncation toward zero.\<close>

definition py_int :: "rat \<Rightarrow> int" where
  "py_int x = (if x < 0 then \<lceil>x\<rceil> else \<lfloor>x\<rfloor>)"

text \<open>\<^verbatim>\<open>os.path.join(a, b)\<close> on a POSIX system.\<close>

definition os_path_join :: "string \<Rightarrow> string \<Rightarrow> string" where
  "os_path_join a b =
     (if startswith b ''/'' then b
      else if a = [] \<or> last a = CHR ''/'' then a @ b
      else a @ ''/'' @ b)"

text \<open>\<^verbatim>\<open>str(n)\<close> of a natural number, as \<^verbatim>\<open>'{}'.format(n)\<close> prints it.\<close>

function py_str :: "nat \<Rightarrow> string" where
  "py_str n =
     (if n < 10 then [''0123456789'' ! n]
      else py_str (n div 10) @ [''0123456789'' ! (n mod 10)])"
  by pat_completeness auto
termination
  by (relation "measure id") auto

declare py_str.simps [simp del]

section \<open>Command-line arguments\<close>

text \<open>
  The namespace the argument parser builds. \<open>model_input_shape\<close> is the pair of integers
  the script parses from \<^verbatim>\<open><height>x<width>\<close> before it calls \<open>main\<close>. Floats
  (\<open>val_split\<close>, \<open>learning_rate\<close>, \<open>label_smoothing\<close>) are finite and carried as the
  rational they denote.
\<close>

record args =
  model_type :: string
  anchors_path :: string
  model_input_shape :: "int \<times> int"
  weights_path :: "string option"
  annotation_file :: string
  val_annotation_file :: "string option"
  val_split :: rat
  classes_path :: string
  batch_size :: int
  optimizer :: string
  learning_rate :: rat
  average_type :: "string option"
  decay_type :: "string option"
  transfer_epoch :: int
  freeze_level :: "int option"
  init_epoch :: int
  total_epoch :: int
  multiscale :: bool
  rescale_interval :: int
  enhance_augment :: "string option"
  label_smoothing :: rat
  multi_anchor_assign :: bool
  elim_grid_sense :: bool
  data_shuffle :: bool
  gpu_num :: int
  model_pruning :: bool
  quantize_aware_training :: bool
  eval_online :: bool
  eval_epoch_interval :: int
  save_eval_checkpoint :: bool

section \<open>Framework objects\<close>

type_synonym annotation = string
type_synonym anchor = "nat \<times> nat"

text \<open>The three model constructors and the three data generators the driver imports.\<close>

datatype train_model_fn =
  get_yolo5_train_model | get_yolo3_train_model | get_yolo2_train_model

datatype generator_fn =
  yolo5_data_generator_wrapper | yolo3_data_generator_wrapper | yolo2_data_generator_wrapper

text \<open>
  An optimizer is known by the call of \<^verbatim>\<open>get_optimizer\<close> that made it: type, learning
  rate, \<open>average_type\<close>, \<open>decay_type\<close> and \<open>decay_steps\<close> (absent in the first call).
\<close>

datatype optimizer_obj =
  Optimizer string rat "string option" "string option" "int option"

text \<open>The callbacks, each with the arguments the driver gives it.\<close>

datatype callback =
    TensorBoard string
  | ModelCheckpoint string
  | QuantizeModelCheckpoint string
  | ReduceLROnPlateau
  | EarlyStopping
  | CheckpointCleanCallBack string
  | TerminateOnNaN
  | EvalCallBack string "annotation list" "anchor list" "string list" "int \<times> int"
      bool string int bool bool
  | DatasetShuffleCallBack
  | UpdatePruningStep
  | PruningSummaries string
  | AverageModelCheckpoint string

text \<open>A keyword argument that a call may leave to its default.\<close>

datatype 'a kwarg = Omitted | Given 'a

record train_model_call =
  tm_model_type :: string
  tm_anchors :: "anchor list"
  tm_num_classes :: nat
  tm_quantize_aware_training :: bool
  tm_weights_path :: "string option"
  tm_freeze_level :: int
  tm_optimizer :: optimizer_obj
  tm_label_smoothing :: rat
  tm_elim_grid_sense :: bool
  tm_model_pruning :: bool
  tm_pruning_end_step :: int

record generator_call =
  gen_fn :: generator_fn
  gen_lines :: "annotation list"
  gen_batch_size :: int
  gen_input_shape :: "int \<times> int"
  gen_anchors :: "anchor list"
  gen_num_classes :: nat
  gen_enhance_augment :: "string option kwarg"
  gen_rescale_interval :: "int kwarg"
  gen_multi_anchor_assign :: bool

record fit_call =
  fit_generator :: generator_call
  fit_steps_per_epoch :: int
  fit_validation_data :: generator_call
  fit_validation_steps :: int
  fit_epochs :: int
  fit_initial_epoch :: int
  fit_workers :: int
  fit_use_multiprocessing :: bool
  fit_max_queue_size :: int
  fit_callbacks :: "callback list"

text \<open>A Keras model, as far as the driver touches it: its layers and their flags.\<close>

record layer =
  layer_name :: string
  trainable :: bool

record model =
  layers :: "layer list"

text \<open>
  The framework calls of one run, in order. The flag of \<open>GetTrainModel\<close> and \<open>Compile\<close>
  says whether the call stands inside \<^verbatim>\<open>strategy.scope()\<close>; \<open>FitGenerator\<close> and
  \<open>Compile\<close> carry the model as it is when they are called.
\<close>

datatype event =
    MirroredStrategy "string list"
  | GetTrainModel train_model_fn bool train_model_call
  | FitGenerator model fit_call
  | Sleep nat
  | Compile bool model optimizer_obj
  | StripPruning
  | MakeDirs string
  | SaveModel string "int \<times> int"
  | WriteTflite string
  | ModelSave string

text \<open>
  What the driver takes from modules that are not part of the file: the readers of the
  class, anchor and annotation files, the constructors' result, and the state in which a
  \<^verbatim>\<open>fit_generator\<close> call with a \<open>DatasetShuffleCallBack\<close> leaves the list that
  callback shares with the driver. \<open>float_mul n v\<close> is the float product
  \<^verbatim>\<open>n * v\<close>.
\<close>

record env =
  get_classes :: "string \<Rightarrow> string list"
  get_anchors :: "string \<Rightarrow> anchor list"
  get_dataset :: "string \<Rightarrow> annotation list"
  float_mul :: "nat \<Rightarrow> rat \<Rightarrow> rat"
  build_model :: "train_model_fn \<Rightarrow> train_model_call \<Rightarrow> model"
  shuffle_dataset :: "annotation list \<Rightarrow> annotation list"

section \<open>The training driver\<close>

subsection \<open>Set-up: freeze level, callbacks, dataset split, model family\<close>

text \<open>
  The freeze level of the transfer stage: first from \<open>weights_path\<close>, then overridden
  by \<open>freeze_level\<close> when that option is not \<^verbatim>\<open>None\<close>.
\<close>

definition get_freeze_level :: "args \<Rightarrow> int" where
  "get_freeze_level a =
     (let level = (if truthy (weights_path a) then 0 else 1)
      in case freeze_level a of None \<Rightarrow> level | Some l \<Rightarrow> l)"

definition checkpoint_name :: string where
  "checkpoint_name = ''ep{epoch:03d}-loss{loss:.3f}-val_loss{val_loss:.3f}.h5''"

definition quant_checkpoint_name :: string where
  "quant_checkpoint_name = ''ep{epoch:03d}-loss{loss:.3f}-val_loss{val_loss:.3f}-quant.h5''"

definition initial_callbacks :: "args \<Rightarrow> string \<Rightarrow> callback list" where
  "initial_callbacks a log_dir =
     (let logging = TensorBoard log_dir;
          checkpoint = ModelCheckpoint (os_path_join log_dir checkpoint_name);
          reduce_lr = ReduceLROnPlateau;
          early_stopping = EarlyStopping;
          checkpoint_clean = CheckpointCleanCallBack log_dir;
          terminate_on_nan = TerminateOnNaN;
          callbacks =
            [logging, checkpoint, reduce_lr, early_stopping, terminate_on_nan, checkpoint_clean]
      in if quantize_aware_training a
         then callbacks @ [QuantizeModelCheckpoint (os_path_join log_dir quant_checkpoint_name)]
         else callbacks)"

text \<open>
  The train and validation split: the list of all annotation lines, \<open>num_train\<close> and
  \<open>num_val\<close>. With a validation file the two lists are joined; without one the count
  of validation lines is \<^verbatim>\<open>int(len(dataset)*val_split)\<close>.
\<close>

definition split_dataset :: "env \<Rightarrow> args \<Rightarrow> annotation list \<times> int \<times> int" where
  "split_dataset e a =
     (let dataset = get_dataset e (annotation_file a)
      in if truthy (val_annotation_file a)
         then (let val_dataset = get_dataset e (the (val_annotation_file a));
                   num_train = int (length dataset);
                   num_val = int (length val_dataset)
               in (dataset @ val_dataset, num_train, num_val))
         else (let num_val = py_int (float_mul e (length dataset) (val_split a));
                   num_train = int (length dataset) - num_val
               in (dataset, num_train, num_val)))"

text \<open>
  The model family: constructor, data generator and \<open>tiny_version\<close>, by the prefix of
  \<open>model_type\<close>, in the order of the source.
\<close>

definition select_model :: "args \<Rightarrow> error + (train_model_fn \<times> generator_fn \<times> bool)" where
  "select_model a =
     (if startswith (model_type a) ''scaled_yolo4_'' \<or> startswith (model_type a) ''yolo5_''
      then Inr (get_yolo5_train_model, yolo5_data_generator_wrapper, False)
      else if startswith (model_type a) ''yolo3_'' \<or> startswith (model_type a) ''yolo4_''
      then Inr (get_yolo3_train_model, yolo3_data_generator_wrapper, False)
      else if startswith (model_type a) ''tiny_yolo3_'' \<or> startswith (model_type a) ''tiny_yolo4_''
      then Inr (get_yolo3_train_model, yolo3_data_generator_wrapper, True)
      else if startswith (model_type a) ''yolo2_'' \<or> startswith (model_type a) ''tiny_yolo2_''
      then Inr (get_yolo2_train_model, yolo2_data_generator_wrapper, False)
      else Inl (ValueError ''Unsupported model type''))"

subsection \<open>Multi-GPU devices, the fit call, unfreezing, saving\<close>

text \<open>\<^verbatim>\<open>["/gpu:{}".format(n) for n in range(gpu_num)]\<close>.\<close>

definition devices_list :: "int \<Rightarrow> string list" where
  "devices_list g = map (\<lambda>n. ''/gpu:'' @ py_str n) [0..<nat g]"

text \<open>
  One \<^verbatim>\<open>model.fit_generator\<close> call. The two calls of the driver differ in
  \<open>epochs\<close>, \<open>initial_epoch\<close> and in the state of \<open>dataset\<close> and \<open>callbacks\<close>.
\<close>

definition fit_generator_call ::
  "args \<Rightarrow> generator_fn \<Rightarrow> annotation list \<Rightarrow> int \<Rightarrow> int \<Rightarrow> anchor list \<Rightarrow> nat \<Rightarrow> int \<Rightarrow>
   int \<Rightarrow> int \<Rightarrow> callback list \<Rightarrow> fit_call" where
  "fit_generator_call a data_generator dataset num_train num_val anchors num_classes rescale
     epochs initial_epoch callbacks =
     \<lparr> fit_generator =
         \<lparr> gen_fn = data_generator, gen_lines = slice_to dataset num_train,
           gen_batch_size = batch_size a, gen_input_shape = model_input_shape a,
           gen_anchors = anchors, gen_num_classes = num_classes,
           gen_enhance_augment = Given (enhance_augment a),
           gen_rescale_interval = Given rescale,
           gen_multi_anchor_assign = multi_anchor_assign a \<rparr>,
       fit_steps_per_epoch = max 1 (num_train div batch_size a),
       fit_validation_data =
         \<lparr> gen_fn = data_generator, gen_lines = slice_from dataset num_train,
           gen_batch_size = batch_size a, gen_input_shape = model_input_shape a,
           gen_anchors = anchors, gen_num_classes = num_classes,
           gen_enhance_augment = Omitted,
           gen_rescale_interval = Omitted,
           gen_multi_anchor_assign = multi_anchor_assign a \<rparr>,
       fit_validation_steps = max 1 (num_val div batch_size a),
       fit_epochs = epochs,
       fit_initial_epoch = initial_epoch,
       fit_workers = 1,
       fit_use_multiprocessing = False,
       fit_max_queue_size = 10,
       fit_callbacks = callbacks \<rparr>"

text \<open>
  The optimizer and the callbacks of the fine-tune stage. With \<open>decay_type\<close> or
  \<open>average_type\<close> the optimizer is made anew and the callback list is changed in place.
\<close>

definition rebuild ::
  "args \<Rightarrow> string \<Rightarrow> int \<Rightarrow> callback list \<Rightarrow> optimizer_obj \<Rightarrow>
   error + (callback list \<times> optimizer_obj)" where
  "rebuild a log_dir num_train callbacks optim =
     (if truthy (decay_type a) \<or> truthy (average_type a) then
        (case (if truthy (decay_type a) then py_remove callbacks ReduceLROnPlateau
               else Inr callbacks) of
           Inl err \<Rightarrow> Inl err
         | Inr callbacks1 \<Rightarrow>
            (case (if average_type a = Some ''ema'' \<or> average_type a = Some ''swa''
                   then (case py_remove callbacks1
                                (ModelCheckpoint (os_path_join log_dir checkpoint_name)) of
                           Inl err \<Rightarrow> Inl err
                         | Inr cs \<Rightarrow>
                             Inr (py_insert cs (- 1)
                                   (AverageModelCheckpoint (os_path_join log_dir checkpoint_name))))
                   else Inr callbacks1) of
               Inl err \<Rightarrow> Inl err
             | Inr callbacks2 \<Rightarrow>
                (let steps_per_epoch = max 1 (num_train div batch_size a);
                     decay_steps =
                       steps_per_epoch * (total_epoch a - init_epoch a - transfer_epoch a)
                 in Inr (callbacks2,
                         Optimizer (optimizer a) (learning_rate a) (average_type a)
                           (decay_type a) (Some decay_steps)))))
      else Inr (callbacks, optim))"

text \<open>
  \<^verbatim>\<open>for i in range(len(model.layers)): model.layers[i].trainable = True\<close>.
\<close>

definition unfreeze :: "model \<Rightarrow> model" where
  "unfreeze m =
     fold (\<lambda>i m. m\<lparr>layers := (layers m)[i := (layers m ! i)\<lparr>trainable := True\<rparr>]\<rparr>)
       [0..<length (layers m)] m"

text \<open>
  \<open>save_quantized_model\<close>: the directory is made, the model with the two prediction
  outputs and the input size of \<open>model_input_shape\<close> is saved as h5, and its uint8
  TFLite conversion is written beside it. \<open>epoch\<close> is the text the file names take.
\<close>

definition save_quantized_model :: "args \<Rightarrow> string \<Rightarrow> string \<Rightarrow> event list" where
  "save_quantized_model a log_dir epoch =
     [MakeDirs log_dir,
      SaveModel (os_path_join log_dir (''trained_'' @ epoch @ ''.h5'')) (model_input_shape a),
      WriteTflite (os_path_join log_dir (''trained_'' @ epoch @ ''_uint8.tflite''))]"

subsection \<open>main\<close>

text \<open>
  The result is the trace of framework calls and the exception that ended the run, if
  any. Printing is left out. The \<^verbatim>\<open>assert\<close> is checked (the interpreter does not run
  with \<^verbatim>\<open>-O\<close>), the readers of the environment return, and \<^verbatim>\<open>int()\<close> gets a
  finite float. The division of line 199 is a float division, which raises on a zero
  batch size; its quotient is taken exactly.
\<close>

definition main :: "env \<Rightarrow> args \<Rightarrow> event list \<times> error option" where
  "main e a =
    (let log_dir = os_path_join ''logs'' ''000'';
         class_names = get_classes e (classes_path a);
         num_classes = length class_names;
         anchors = get_anchors e (anchors_path a);
         level = get_freeze_level a;
         callbacks = initial_callbacks a log_dir;
         (dataset, num_train, num_val) = split_dataset e a;
         rescale = (if multiscale a then rescale_interval a else - 1);
         input_shape = model_input_shape a
     in if \<not> (fst input_shape mod 32 = 0 \<and> snd input_shape mod 32 = 0)
        then ([], Some (AssertionError ''model_input_shape should be multiples of 32''))
        else case select_model a of
          Inl err \<Rightarrow> ([], Some err)
        | Inr (get_train_model, data_generator, tiny_version) \<Rightarrow>
           (let callbacks =
                  (if eval_online a
                   then py_insert callbacks (- 1)
                          (EvalCallBack (model_type a) (slice_from dataset num_train) anchors
                             class_names (model_input_shape a) (model_pruning a) log_dir
                             (eval_epoch_interval a) (save_eval_checkpoint a)
                             (elim_grid_sense a))
                   else callbacks);
                callbacks =
                  (if data_shuffle a then callbacks @ [DatasetShuffleCallBack] else callbacks)
            in if batch_size a = 0 then ([], Some ZeroDivisionError)
               else
                (let pruning_end_step =
                       \<lceil>(of_int num_train :: rat) / of_int (batch_size a)\<rceil> * total_epoch a;
                     callbacks =
                       (if model_pruning a
                        then callbacks @ [UpdatePruningStep, PruningSummaries log_dir]
                        else callbacks);
                     optim = Optimizer (optimizer a) (learning_rate a) None None None;
                     call =
                       \<lparr> tm_model_type = model_type a, tm_anchors = anchors,
                         tm_num_classes = num_classes,
                         tm_quantize_aware_training = quantize_aware_training a,
                         tm_weights_path = weights_path a, tm_freeze_level = level,
                         tm_optimizer = optim, tm_label_smoothing = label_smoothing a,
                         tm_elim_grid_sense = elim_grid_sense a,
                         tm_model_pruning = model_pruning a,
                         tm_pruning_end_step = pruning_end_step \<rparr>;
                     construct =
                       (if gpu_num a \<ge> 2
                        then [MirroredStrategy (devices_list (gpu_num a)),
                              GetTrainModel get_train_model True call]
                        else [GetTrainModel get_train_model False call]);
                     model = build_model e get_train_model call;
                     initial_epoch = init_epoch a;
                     epochs = initial_epoch + transfer_epoch a;
                     transfer =
                       FitGenerator model
                         (fit_generator_call a data_generator dataset num_train num_val anchors
                            num_classes rescale epochs initial_epoch callbacks);
                     dataset = (if data_shuffle a then shuffle_dataset e dataset else dataset)
                 in case rebuild a log_dir num_train callbacks optim of
                      Inl err \<Rightarrow> (construct @ [transfer, Sleep 2], Some err)
                    | Inr (callbacks, optim) \<Rightarrow>
                       (let model = unfreeze model;
                            compile = Compile (gpu_num a \<ge> 2) model optim;
                            finetune =
                              FitGenerator model
                                (fit_generator_call a data_generator dataset num_train num_val
                                   anchors num_classes rescale (total_epoch a) epochs callbacks);
                            strip = (if model_pruning a then [StripPruning] else []);
                            store =
                              (if quantize_aware_training a
                               then save_quantized_model a log_dir ''last''
                               else [ModelSave (os_path_join log_dir ''trained_final.h5'')])
                        in (construct @ [transfer, Sleep 2, compile, finetune] @ strip @ store,
                            None)))))"

subsection \<open>Reading a trace\<close>

fun fit_calls :: "event list \<Rightarrow> fit_call list" where
  "fit_calls [] = []"
| "fit_calls (FitGenerator m f # es) = f # fit_calls es"
| "fit_calls (ev # es) = fit_calls es"

fun constructions :: "event list \<Rightarrow> (train_model_fn \<times> bool \<times> train_model_call) list" where
  "constructions [] = []"
| "constructions (GetTrainModel g s c # es) = (g, s, c) # constructions es"
| "constructions (ev # es) = constructions es"

text \<open>The epochs one fit call runs: \<^verbatim>\<open>range(initial_epoch, epochs)\<close>.\<close>

definition stage_epochs :: "fit_call \<Rightarrow> int list" where
  "stage_epochs f = [fit_initial_epoch f .. fit_epochs f - 1]"

fun strategies :: "event list \<Rightarrow> string list list" where
  "strategies [] = []"
| "strategies (MirroredStrategy ds # es) = ds # strategies es"
| "strategies (ev # es) = strategies es"

fun compiles :: "event list \<Rightarrow> (bool \<times> optimizer_obj) list" where
  "compiles [] = []"
| "compiles (Compile s m opt # es) = (s, opt) # compiles es"
| "compiles (ev # es) = compiles es"

subsection \<open>The parts of a run\<close>

text \<open>
  Names for the values \<open>main\<close> computes on its way, as functions of the environment and
  the arguments. Lemma \<open>main_staged\<close> below shows that \<open>main\<close> is built from them.
\<close>

definition log_dir :: string where
  "log_dir = os_path_join ''logs'' ''000''"

definition run_dataset :: "env \<Rightarrow> args \<Rightarrow> annotation list" where
  "run_dataset e a = fst (split_dataset e a)"

definition run_num_train :: "env \<Rightarrow> args \<Rightarrow> int" where
  "run_num_train e a = fst (snd (split_dataset e a))"

definition run_num_val :: "env \<Rightarrow> args \<Rightarrow> int" where
  "run_num_val e a = snd (snd (split_dataset e a))"

definition run_rescale :: "args \<Rightarrow> int" where
  "run_rescale a = (if multiscale a then rescale_interval a else - 1)"

definition run_optimizer :: "args \<Rightarrow> optimizer_obj" where
  "run_optimizer a = Optimizer (optimizer a) (learning_rate a) None None None"

definition run_callbacks :: "env \<Rightarrow> args \<Rightarrow> callback list" where
  "run_callbacks e a =
     (let c0 = initial_callbacks a log_dir;
          c1 = (if eval_online a
                then py_insert c0 (- 1)
                       (EvalCallBack (model_type a)
                          (slice_from (run_dataset e a) (run_num_train e a))
                          (get_anchors e (anchors_path a)) (get_classes e (classes_path a))
                          (model_input_shape a) (model_pruning a) log_dir
                          (eval_epoch_interval a) (save_eval_checkpoint a) (elim_grid_sense a))
                else c0);
          c2 = (if data_shuffle a then c1 @ [DatasetShuffleCallBack] else c1)
      in if model_pruning a then c2 @ [UpdatePruningStep, PruningSummaries log_dir] else c2)"

definition run_call :: "env \<Rightarrow> args \<Rightarrow> train_model_call" where
  "run_call e a =
     \<lparr> tm_model_type = model_type a, tm_anchors = get_anchors e (anchors_path a),
       tm_num_classes = length (get_classes e (classes_path a)),
       tm_quantize_aware_training = quantize_aware_training a,
       tm_weights_path = weights_path a, tm_freeze_level = get_freeze_level a,
       tm_optimizer = run_optimizer a, tm_label_smoothing = label_smoothing a,
       tm_elim_grid_sense = elim_grid_sense a,
       tm_model_pruning = model_pruning a,
       tm_pruning_end_step =
         \<lceil>(of_int (run_num_train e a) :: rat) / of_int (batch_size a)\<rceil> * total_epoch a \<rparr>"

definition run_construct :: "env \<Rightarrow> args \<Rightarrow> train_model_fn \<Rightarrow> event list" where
  "run_construct e a g =
     (if gpu_num a \<ge> 2
      then [MirroredStrategy (devices_list (gpu_num a)), GetTrainModel g True (run_call e a)]
      else [GetTrainModel g False (run_call e a)])"

definition run_fit ::
  "env \<Rightarrow> args \<Rightarrow> generator_fn \<Rightarrow> annotation list \<Rightarrow> int \<Rightarrow> int \<Rightarrow> callback list \<Rightarrow> fit_call" where
  "run_fit e a d ds ep ini cs =
     fit_generator_call a d ds (run_num_train e a) (run_num_val e a)
       (get_anchors e (anchors_path a)) (length (get_classes e (classes_path a)))
       (run_rescale a) ep ini cs"

definition run_store :: "args \<Rightarrow> event list" where
  "run_store a =
     (if model_pruning a then [StripPruning] else []) @
     (if quantize_aware_training a then save_quantized_model a log_dir ''last''
      else [ModelSave (os_path_join log_dir ''trained_final.h5'')])"

subsection \<open>A sample run\<close>

text \<open>
  The parser's defaults, with a validation split of a quarter and a learning rate of
  \<open>1/1024\<close>, and an environment with eight annotation lines, two validation lines in
  \<^verbatim>\<open>val.txt\<close>, two classes, three anchors and a model of two layers whose first is
  frozen unless the freeze level is 0.
\<close>

definition sample_args :: args where
  "sample_args =
     \<lparr> model_type = ''yolo3_mobilenet_lite'', anchors_path = ''configs/yolo3_anchors.txt'',
       model_input_shape = (416, 416), weights_path = None,
       annotation_file = ''trainval.txt'', val_annotation_file = None, val_split = 1 / 4,
       classes_path = ''configs/voc_classes.txt'', batch_size = 16, optimizer = ''adam'',
       learning_rate = 1 / 1024, average_type = None, decay_type = None,
       transfer_epoch = 20, freeze_level = None, init_epoch = 0, total_epoch = 250,
       multiscale = False, rescale_interval = 10, enhance_augment = None,
       label_smoothing = 0, multi_anchor_assign = False, elim_grid_sense = False,
       data_shuffle = False, gpu_num = 1, model_pruning = False,
       quantize_aware_training = False, eval_online = False, eval_epoch_interval = 10,
       save_eval_checkpoint = False \<rparr>"

definition sample_env :: env where
  "sample_env =
     \<lparr> get_classes = (\<lambda>p. [''cat'', ''dog'']),
       get_anchors = (\<lambda>p. [(10, 13), (16, 30), (33, 23)]),
       get_dataset =
         (\<lambda>p. if p = ''val.txt'' then [''v1'', ''v2'']
              else [''l1'', ''l2'', ''l3'', ''l4'', ''l5'', ''l6'', ''l7'', ''l8'']),
       float_mul = (\<lambda>n v. of_nat n * v),
       build_model =
         (\<lambda>g c. \<lparr> layers =
                    [\<lparr> layer_name = ''backbone'', trainable = (tm_freeze_level c = 0) \<rparr>,
                     \<lparr> layer_name = ''head'', trainable = True \<rparr>] \<rparr>),
       shuffle_dataset = rev \<rparr>"

section \<open>Properties of the built-ins and of the parts\<close>

lemma main_shape:
  assumes "\<not> (fst (model_input_shape a) mod 32 = 0 \<and> snd (model_input_shape a) mod 32 = 0)"
  shows "main e a = ([], Some (AssertionError ''model_input_shape should be multiples of 32''))"
  using assms by (simp add: main_def Let_def split: prod.split)

lemma main_unsupported:
  assumes "fst (model_input_shape a) mod 32 = 0" "snd (model_input_shape a) mod 32 = 0"
    and "select_model a = Inl err"
  shows "main e a = ([], Some err)"
  using assms by (simp add: main_def Let_def split: prod.split)

lemma main_zero_batch:
  assumes "fst (model_input_shape a) mod 32 = 0" "snd (model_input_shape a) mod 32 = 0"
    and "select_model a = Inr (g, d, t)" and "batch_size a = 0"
  shows "main e a = ([], Some ZeroDivisionError)"
  using assms by (simp add: main_def Let_def split: prod.split)

lemma main_staged:
  assumes "fst (model_input_shape a) mod 32 = 0" "snd (model_input_shape a) mod 32 = 0"
    and "select_model a = Inr (g, d, t)" and "batch_size a \<noteq> 0"
  shows "main e a =
    (case rebuild a log_dir (run_num_train e a) (run_callbacks e a) (run_optimizer a) of
       Inl err \<Rightarrow>
         (run_construct e a g @
            [FitGenerator (build_model e g (run_call e a))
               (run_fit e a d (run_dataset e a) (init_epoch a + transfer_epoch a) (init_epoch a)
                  (run_callbacks e a)),
             Sleep 2], Some err)
     | Inr (cs, opt) \<Rightarrow>
         (run_construct e a g @
            [FitGenerator (build_model e g (run_call e a))
               (run_fit e a d (run_dataset e a) (init_epoch a + transfer_epoch a) (init_epoch a)
                  (run_callbacks e a)),
             Sleep 2,
             Compile (gpu_num a \<ge> 2) (unfreeze (build_model e g (run_call e a))) opt,
             FitGenerator (unfreeze (build_model e g (run_call e a)))
               (run_fit e a d
                  (if data_shuffle a then shuffle_dataset e (run_dataset e a) else run_dataset e a)
                  (total_epoch a) (init_epoch a + transfer_epoch a) cs)] @
          run_store a, None))"
  using assms
  by (simp add: main_def Let_def log_dir_def run_dataset_def run_num_train_def run_num_val_def
      run_rescale_def run_optimizer_def run_callbacks_def run_call_def run_construct_def
      run_fit_def run_store_def split: prod.split split del: if_split cong: if_cong sum.case_cong)


lemma in_set_py_insert: "y \<in> set (py_insert xs i x) \<longleftrightarrow> y = x \<or> y \<in> set xs"
proof -
  have "set (take j xs) \<union> set (drop j xs) = set xs" for j
    by (metis append_take_drop_id set_append)
  then show ?thesis by (auto simp: py_insert_def Let_def)
qed

lemma distinct_py_insert:
  assumes "distinct xs" and "x \<notin> set xs"
  shows "distinct (py_insert xs i x)"
proof -
  let ?j = "py_index i (length xs)"
  have d: "distinct (take ?j xs) \<and> distinct (drop ?j xs) \<and>
      set (take ?j xs) \<inter> set (drop ?j xs) = {}"
    by (metis append_take_drop_id distinct_append assms(1))
  have "x \<notin> set (take ?j xs)" "x \<notin> set (drop ?j xs)"
    using assms(2) by (auto dest: in_set_takeD in_set_dropD)
  with d show ?thesis by (simp add: py_insert_def Let_def)
qed

lemma py_insert_before_last:
  assumes "xs \<noteq> []"
  shows "py_insert xs (- 1) x = butlast xs @ [x, last xs]"
proof -
  have j: "py_index (- 1) (length xs) = length xs - 1"
    using assms by (cases xs) (auto simp: py_index_def)
  have "take (length xs - 1) xs = butlast xs" by (simp add: butlast_conv_take)
  moreover have "drop (length xs - 1) xs = [last xs]"
    using assms by (metis append_butlast_last_id length_butlast append_eq_conv_conj)
  ultimately show ?thesis by (simp add: py_insert_def j)
qed

lemma initial_callbacks_eq:
  "initial_callbacks a ld =
     [TensorBoard ld, ModelCheckpoint (os_path_join ld checkpoint_name), ReduceLROnPlateau,
      EarlyStopping, TerminateOnNaN, CheckpointCleanCallBack ld] @
     (if quantize_aware_training a
      then [QuantizeModelCheckpoint (os_path_join ld quant_checkpoint_name)] else [])"
  by (simp add: initial_callbacks_def)

lemma run_callbacks_members:
  "ReduceLROnPlateau \<in> set (run_callbacks e a)"
  "ModelCheckpoint (os_path_join log_dir checkpoint_name) \<in> set (run_callbacks e a)"
  by (simp_all add: run_callbacks_def Let_def initial_callbacks_eq in_set_py_insert)

lemma run_callbacks_distinct: "distinct (run_callbacks e a)"
proof -
  have d0: "distinct (initial_callbacks a log_dir)"
    by (simp add: initial_callbacks_eq)
  have e0: "EvalCallBack m v an cl sh pr ld iv sv el \<notin> set (initial_callbacks a log_dir)"
    for m v an cl sh pr ld iv sv el
    by (simp add: initial_callbacks_eq)
  show ?thesis
    unfolding run_callbacks_def Let_def
    by (auto simp: distinct_py_insert d0 e0 in_set_py_insert initial_callbacks_eq)
qed


lemma rebuild_unchanged:
  assumes "\<not> truthy (decay_type a)" and "\<not> truthy (average_type a)"
  shows "rebuild a ld n cs opt = Inr (cs, opt)"
  using assms by (simp add: rebuild_def)

lemma average_truthy:
  "average_type a = Some ''ema'' \<or> average_type a = Some ''swa'' \<Longrightarrow> truthy (average_type a)"
  by (auto simp: truthy_def)

lemma rebuild_changed:
  assumes "truthy (decay_type a) \<or> truthy (average_type a)"
    and "ReduceLROnPlateau \<in> set cs"
    and "ModelCheckpoint (os_path_join ld checkpoint_name) \<in> set cs"
  shows "rebuild a ld n cs opt =
     Inr (let c1 = (if truthy (decay_type a) then remove1 ReduceLROnPlateau cs else cs)
          in if average_type a = Some ''ema'' \<or> average_type a = Some ''swa''
             then py_insert (remove1 (ModelCheckpoint (os_path_join ld checkpoint_name)) c1) (- 1)
                    (AverageModelCheckpoint (os_path_join ld checkpoint_name))
             else c1,
          Optimizer (optimizer a) (learning_rate a) (average_type a) (decay_type a)
            (Some (max 1 (n div batch_size a) *
                   (total_epoch a - init_epoch a - transfer_epoch a))))"
  using assms by (auto simp: rebuild_def py_remove_def Let_def)

lemma rebuild_total:
  assumes "ReduceLROnPlateau \<in> set cs"
    and "ModelCheckpoint (os_path_join ld checkpoint_name) \<in> set cs"
  shows "\<exists>cs' opt'. rebuild a ld n cs opt = Inr (cs', opt')"
proof (cases "truthy (decay_type a) \<or> truthy (average_type a)")
  case True
  from rebuild_changed[OF True assms] show ?thesis by blast
next
  case False
  then show ?thesis by (simp add: rebuild_unchanged)
qed

lemma unfreeze_prefix:
  fixes m :: model
  defines "f \<equiv> (\<lambda>i (m::model). m\<lparr>layers := (layers m)[i := (layers m ! i)\<lparr>trainable := True\<rparr>]\<rparr>)"
  assumes "k \<le> length (layers m)"
  shows "length (layers (fold f [0..<k] m)) = length (layers m) \<and>
     (\<forall>i<length (layers m). layers (fold f [0..<k] m) ! i =
        (if i < k then (layers m ! i)\<lparr>trainable := True\<rparr> else layers m ! i))"
  using assms(2)
proof (induction k)
  case 0
  then show ?case by simp
next
  case (Suc k)
  then have ih: "length (layers (fold f [0..<k] m)) = length (layers m)"
     "\<forall>i<length (layers m). layers (fold f [0..<k] m) ! i =
        (if i < k then (layers m ! i)\<lparr>trainable := True\<rparr> else layers m ! i)"
    by simp_all
  have k: "k < length (layers m)" using Suc.prems by simp
  show ?case
    using ih k by (auto simp: f_def nth_list_update less_Suc_eq)
qed

lemma layers_unfreeze:
  "layers (unfreeze m) = map (\<lambda>l. l\<lparr>trainable := True\<rparr>) (layers m)"
  using unfreeze_prefix[of "length (layers m)" m]
  by (intro nth_equalityI) (simp_all add: unfreeze_def)

lemma unfreeze_trainable: "i < length (layers m) \<Longrightarrow> trainable (layers (unfreeze m) ! i)"
  by (simp add: layers_unfreeze)

lemma unfreeze_names: "map layer_name (layers (unfreeze m)) = map layer_name (layers m)"
  by (simp add: layers_unfreeze)

lemma select_model_total:
  "select_model a = Inl (ValueError ''Unsupported model type'') \<or>
   (\<exists>g d t. select_model a = Inr (g, d, t))"
  by (cases "select_model a") (auto simp: select_model_def split: if_splits)

lemma select_model_cases:
  obtains (unsupported) "select_model a = Inl (ValueError ''Unsupported model type'')"
  | (supported) g d t where "select_model a = Inr (g, d, t)"
  using select_model_total[of a] by blast

lemma main_outcome:
  "snd (main e a) =
     (if \<not> (fst (model_input_shape a) mod 32 = 0 \<and> snd (model_input_shape a) mod 32 = 0)
      then Some (AssertionError ''model_input_shape should be multiples of 32'')
      else case select_model a of
        Inl err \<Rightarrow> Some err
      | Inr sel \<Rightarrow> if batch_size a = 0 then Some ZeroDivisionError else None)"
proof (cases "fst (model_input_shape a) mod 32 = 0 \<and> snd (model_input_shape a) mod 32 = 0")
  case False
  then show ?thesis using main_shape[of a e] by simp
next
  case shape: True
  show ?thesis
  proof (cases a rule: select_model_cases)
    case unsupported
    then show ?thesis using shape main_unsupported[of a _ e] by simp
  next
    case (supported g d t)
    show ?thesis
    proof (cases "batch_size a = 0")
      case True
      then show ?thesis using shape supported main_zero_batch[of a g d t e] by simp
    next
      case False
      obtain cs opt where
        "rebuild a log_dir (run_num_train e a) (run_callbacks e a) (run_optimizer a) = Inr (cs, opt)"
        using rebuild_total[OF run_callbacks_members] by blast
      then show ?thesis
        using shape supported False main_staged[of a g d t e] by simp
    qed
  qed
qed

lemma main_trace:
  assumes "snd (main e a) = None"
  obtains g d t cs opt where
    "fst (model_input_shape a) mod 32 = 0" "snd (model_input_shape a) mod 32 = 0"
    "select_model a = Inr (g, d, t)" "batch_size a \<noteq> 0"
    "rebuild a log_dir (run_num_train e a) (run_callbacks e a) (run_optimizer a) = Inr (cs, opt)"
    "fst (main e a) =
       run_construct e a g @
       [FitGenerator (build_model e g (run_call e a))
          (run_fit e a d (run_dataset e a) (init_epoch a + transfer_epoch a) (init_epoch a)
             (run_callbacks e a)),
        Sleep 2,
        Compile (gpu_num a \<ge> 2) (unfreeze (build_model e g (run_call e a))) opt,
        FitGenerator (unfreeze (build_model e g (run_call e a)))
          (run_fit e a d
             (if data_shuffle a then shuffle_dataset e (run_dataset e a) else run_dataset e a)
             (total_epoch a) (init_epoch a + transfer_epoch a) cs)] @
       run_store a"
proof -
  from assms have shape: "fst (model_input_shape a) mod 32 = 0" "snd (model_input_shape a) mod 32 = 0"
    by (auto simp: main_outcome split: if_splits)
  from assms shape obtain g d t where sel: "select_model a = Inr (g, d, t)"
    by (cases a rule: select_model_cases) (auto simp: main_outcome)
  from assms shape sel have b: "batch_size a \<noteq> 0"
    by (auto simp: main_outcome split: if_splits)
  obtain cs opt where
    r: "rebuild a log_dir (run_num_train e a) (run_callbacks e a) (run_optimizer a) = Inr (cs, opt)"
    using rebuild_total[OF run_callbacks_members] by blast
  show thesis
    using that[OF shape sel b r] main_staged[OF shape sel b, of e] r by simp
qed

lemma fit_calls_append: "fit_calls (xs @ ys) = fit_calls xs @ fit_calls ys"
  by (induction xs rule: fit_calls.induct) simp_all

lemma constructions_append: "constructions (xs @ ys) = constructions xs @ constructions ys"
  by (induction xs rule: constructions.induct) simp_all

lemma strategies_append: "strategies (xs @ ys) = strategies xs @ strategies ys"
  by (induction xs rule: strategies.induct) simp_all

lemma compiles_append: "compiles (xs @ ys) = compiles xs @ compiles ys"
  by (induction xs rule: compiles.induct) simp_all

lemma run_store_observed:
  "fit_calls (run_store a) = []" "constructions (run_store a) = []"
  "strategies (run_store a) = []" "compiles (run_store a) = []"
  by (simp_all add: run_store_def save_quantized_model_def)

lemma run_construct_observed:
  "fit_calls (run_construct e a g) = []"
  "constructions (run_construct e a g) = [(g, 2 \<le> gpu_num a, run_call e a)]"
  "strategies (run_construct e a g) = (if 2 \<le> gpu_num a then [devices_list (gpu_num a)] else [])"
  "compiles (run_construct e a g) = []"
  by (simp_all add: run_construct_def)

lemma main_constructions:
  assumes "snd (main e a) = None"
  shows "\<exists>g d t. select_model a = Inr (g, d, t) \<and>
     constructions (fst (main e a)) = [(g, 2 \<le> gpu_num a, run_call e a)]"
  using assms
  by (elim main_trace)
    (simp add: constructions_append run_construct_observed run_store_observed)

lemma sample_select:
  "select_model sample_args =
     Inr (get_yolo3_train_model, yolo3_data_generator_wrapper, False)"
  by (simp add: select_model_def startswith_def sample_args_def)

lemma sample_run: "snd (main sample_env sample_args) = None"
  by (simp add: main_outcome sample_select) (simp add: sample_args_def)

lemma main_observed:
  assumes "snd (main e a) = None"
  obtains g d t cs opt where
    "select_model a = Inr (g, d, t)"
    "rebuild a log_dir (run_num_train e a) (run_callbacks e a) (run_optimizer a) = Inr (cs, opt)"
    "fit_calls (fst (main e a)) =
       [run_fit e a d (run_dataset e a) (init_epoch a + transfer_epoch a) (init_epoch a)
          (run_callbacks e a),
        run_fit e a d
          (if data_shuffle a then shuffle_dataset e (run_dataset e a) else run_dataset e a)
          (total_epoch a) (init_epoch a + transfer_epoch a) cs]"
    "constructions (fst (main e a)) = [(g, 2 \<le> gpu_num a, run_call e a)]"
    "strategies (fst (main e a)) =
       (if 2 \<le> gpu_num a then [devices_list (gpu_num a)] else [])"
    "compiles (fst (main e a)) = [(2 \<le> gpu_num a, opt)]"
proof -
  from assms obtain g d t cs opt where
    sel: "select_model a = Inr (g, d, t)" and
    r: "rebuild a log_dir (run_num_train e a) (run_callbacks e a) (run_optimizer a) = Inr (cs, opt)" and
    tr: "fst (main e a) =
       run_construct e a g @
       [FitGenerator (build_model e g (run_call e a))
          (run_fit e a d (run_dataset e a) (init_epoch a + transfer_epoch a) (init_epoch a)
             (run_callbacks e a)),
        Sleep 2,
        Compile (gpu_num a \<ge> 2) (unfreeze (build_model e g (run_call e a))) opt,
        FitGenerator (unfreeze (build_model e g (run_call e a)))
          (run_fit e a d
             (if data_shuffle a then shuffle_dataset e (run_dataset e a) else run_dataset e a)
             (total_epoch a) (init_epoch a + transfer_epoch a) cs)] @
       run_store a"
    by (rule main_trace)
  show thesis
  proof (rule that[OF sel r])
    show "fit_calls (fst (main e a)) =
       [run_fit e a d (run_dataset e a) (init_epoch a + transfer_epoch a) (init_epoch a)
          (run_callbacks e a),
        run_fit e a d
          (if data_shuffle a then shuffle_dataset e (run_dataset e a) else run_dataset e a)
          (total_epoch a) (init_epoch a + transfer_epoch a) cs]"
      unfolding tr by (simp add: fit_calls_append run_construct_observed run_store_observed)
    show "constructions (fst (main e a)) = [(g, 2 \<le> gpu_num a, run_call e a)]"
      unfolding tr by (simp add: constructions_append run_construct_observed run_store_observed)
    show "strategies (fst (main e a)) =
       (if 2 \<le> gpu_num a then [devices_list (gpu_num a)] else [])"
      unfolding tr by (simp add: strategies_append run_construct_observed run_store_observed)
    show "compiles (fst (main e a)) = [(2 \<le> gpu_num a, opt)]"
      unfolding tr by (simp add: compiles_append run_construct_observed run_store_observed)
  qed
qed

lemma startswith_both:
  "startswith s p \<Longrightarrow> startswith s q \<Longrightarrow> prefix p q \<or> prefix q p"
  using prefix_same_cases[of p s q] by (auto simp: startswith_def)

lemma run_fit_gen_fn:
  "gen_fn (fit_generator (run_fit e a d ds ep ini cs)) = d"
  "gen_fn (fit_validation_data (run_fit e a d ds ep ini cs)) = d"
  by (simp_all add: run_fit_def fit_generator_call_def)

lemma run_fit_fields:
  "fit_epochs (run_fit e a d ds ep ini cs) = ep"
  "fit_initial_epoch (run_fit e a d ds ep ini cs) = ini"
  "fit_callbacks (run_fit e a d ds ep ini cs) = cs"
  "fit_steps_per_epoch (run_fit e a d ds ep ini cs) = max 1 (run_num_train e a div batch_size a)"
  "fit_validation_steps (run_fit e a d ds ep ini cs) = max 1 (run_num_val e a div batch_size a)"
  "gen_lines (fit_generator (run_fit e a d ds ep ini cs)) = slice_to ds (run_num_train e a)"
  "gen_lines (fit_validation_data (run_fit e a d ds ep ini cs)) = slice_from ds (run_num_train e a)"
  by (simp_all add: run_fit_def fit_generator_call_def)

lemma split_dataset_parts:
  assumes "split_dataset e a = (ds, num_train, num_val)"
  shows "run_dataset e a = ds" "run_num_train e a = num_train" "run_num_val e a = num_val"
  using assms by (simp_all add: run_dataset_def run_num_train_def run_num_val_def)

lemma main_batch_size: "snd (main e a) = None \<Longrightarrow> batch_size a \<noteq> 0"
  by (erule main_trace)

lemma stage_epochs_disjoint:
  assumes "fit_initial_epoch f2 = fit_epochs f1"
  shows "set (stage_epochs f1) \<inter> set (stage_epochs f2) = {}"
  using assms by (auto simp: stage_epochs_def)

lemma stage_epochs_cover:
  assumes "fit_initial_epoch f2 = fit_epochs f1"
    and "fit_initial_epoch f1 \<le> fit_epochs f1" and "fit_epochs f1 \<le> fit_epochs f2"
  shows "stage_epochs f1 @ stage_epochs f2 = [fit_initial_epoch f1 .. fit_epochs f2 - 1]"
proof (cases "fit_epochs f1 = fit_epochs f2")
  case True
  then show ?thesis using assms by (simp add: stage_epochs_def)
next
  case False
  then have "fit_epochs f1 \<le> fit_epochs f2 - 1" using assms(3) by simp
  from upto_split1[OF assms(2) this] show ?thesis
    using assms(1) by (simp add: stage_epochs_def)
qed

lemma sample_split:
  "split_dataset sample_env sample_args =
     ([''l1'', ''l2'', ''l3'', ''l4'', ''l5'', ''l6'', ''l7'', ''l8''], 6, 2)"
  by (simp add: split_dataset_def sample_env_def sample_args_def truthy_def py_int_def)

lemma log_dir_eval: "log_dir = ''logs/000''"
  by (simp add: log_dir_def os_path_join_def startswith_def)


lemma checkpoint_path:
  "os_path_join log_dir checkpoint_name =
     ''logs/000/ep{epoch:03d}-loss{loss:.3f}-val_loss{val_loss:.3f}.h5''"
  by (simp add: log_dir_eval os_path_join_def startswith_def checkpoint_name_def)

lemma run_callbacks_first: "TensorBoard log_dir \<in> set (run_callbacks e a)"
  by (simp add: run_callbacks_def Let_def initial_callbacks_eq in_set_py_insert)

lemma rebuild_callbacks:
  assumes r: "rebuild a log_dir n (run_callbacks e a) opt0 = Inr (cs, opt)"
  defines "c1 \<equiv> (if truthy (decay_type a) then remove1 ReduceLROnPlateau (run_callbacks e a)
                  else run_callbacks e a)"
  defines "c2 \<equiv> remove1 (ModelCheckpoint (os_path_join log_dir checkpoint_name)) c1"
  shows "truthy (decay_type a) \<Longrightarrow> ReduceLROnPlateau \<notin> set cs"
    and "average_type a = Some ''ema'' \<or> average_type a = Some ''swa'' \<Longrightarrow>
           ModelCheckpoint (os_path_join log_dir checkpoint_name) \<notin> set cs \<and> c2 \<noteq> [] \<and>
           cs = butlast c2 @
                  [AverageModelCheckpoint (os_path_join log_dir checkpoint_name), last c2]"
    and "\<not> (average_type a = Some ''ema'' \<or> average_type a = Some ''swa'') \<Longrightarrow> cs = c1"
proof -
  let ?M = "ModelCheckpoint (os_path_join log_dir checkpoint_name)"
  let ?A = "AverageModelCheckpoint (os_path_join log_dir checkpoint_name)"
  let ?c0 = "run_callbacks e a"
  have d0: "distinct ?c0" by (rule run_callbacks_distinct)
  have d1: "distinct c1" using d0 by (simp add: c1_def)
  have tb: "TensorBoard log_dir \<in> set c2"
    using run_callbacks_first[of e a] d0 d1 by (simp add: c2_def c1_def)
  then have ne: "c2 \<noteq> []" by auto
  have cs_eq: "cs = (if average_type a = Some ''ema'' \<or> average_type a = Some ''swa''
                     then py_insert c2 (- 1) ?A else c1)"
  proof (cases "truthy (decay_type a) \<or> truthy (average_type a)")
    case True
    from rebuild_changed[OF True run_callbacks_members[of e a], where n=n and opt=opt0] r
    show ?thesis by (simp add: Let_def c1_def c2_def)
  next
    case False
    then have "\<not> (average_type a = Some ''ema'' \<or> average_type a = Some ''swa'')"
      using average_truthy[of a] by blast
    with False r show ?thesis by (simp add: rebuild_unchanged c1_def)
  qed
  {
    assume t: "truthy (decay_type a)"
    then have "ReduceLROnPlateau \<notin> set c1" using d0 by (simp add: c1_def)
    moreover then have "ReduceLROnPlateau \<notin> set c2" using d1 by (simp add: c2_def)
    ultimately show "ReduceLROnPlateau \<notin> set cs"
      by (simp add: cs_eq in_set_py_insert)
  }
  {
    assume av: "average_type a = Some ''ema'' \<or> average_type a = Some ''swa''"
    have "?M \<notin> set c2" using d1 by (simp add: c2_def)
    then have "?M \<notin> set cs" using av by (simp add: cs_eq in_set_py_insert)
    moreover have "cs = butlast c2 @ [?A, last c2]"
      using av ne by (simp add: cs_eq py_insert_before_last)
    ultimately show "?M \<notin> set cs \<and> c2 \<noteq> [] \<and> cs = butlast c2 @ [?A, last c2]"
      using ne by simp
  }
  {
    assume "\<not> (average_type a = Some ''ema'' \<or> average_type a = Some ''swa'')"
    then show "cs = c1" by (simp add: cs_eq)
  }
qed

lemma rebuild_optimizer:
  assumes "rebuild a ld n cs0 opt0 = Inr (cs, opt)"
    and "ReduceLROnPlateau \<in> set cs0"
    and "ModelCheckpoint (os_path_join ld checkpoint_name) \<in> set cs0"
  shows "opt = (if truthy (decay_type a) \<or> truthy (average_type a)
                then Optimizer (optimizer a) (learning_rate a) (average_type a) (decay_type a)
                       (Some (max 1 (n div batch_size a) *
                              (total_epoch a - init_epoch a - transfer_epoch a)))
                else opt0)"
proof (cases "truthy (decay_type a) \<or> truthy (average_type a)")
  case True
  from rebuild_changed[OF True assms(2,3), where n=n and opt=opt0] assms(1) show ?thesis
    using True by simp
next
  case False
  with assms(1) show ?thesis by (simp add: rebuild_unchanged)
qed






section \<open>The claims\<close>

text \<open>
  C1. The model family is chosen by the prefix of \<open>model_type\<close> alone. A type that
  starts with \<^verbatim>\<open>scaled_yolo4_\<close> or \<^verbatim>\<open>yolo5_\<close> selects \<open>get_yolo5_train_model\<close>
  with \<open>yolo5_data_generator_wrapper\<close>; one that starts with \<^verbatim>\<open>yolo3_\<close> or
  \<^verbatim>\<open>yolo4_\<close> selects \<open>get_yolo3_train_model\<close> with \<open>yolo3_data_generator_wrapper\<close>
  and \<open>tiny_version\<close> false; one that starts with \<^verbatim>\<open>tiny_yolo3_\<close> or
  \<^verbatim>\<open>tiny_yolo4_\<close> selects the same two with \<open>tiny_version\<close> true; one that starts
  with \<^verbatim>\<open>yolo2_\<close> or \<^verbatim>\<open>tiny_yolo2_\<close> selects \<open>get_yolo2_train_model\<close> with
  \<open>yolo2_data_generator_wrapper\<close>. Two argument sets with the same \<open>model_type\<close> get
  the same choice, and a run constructs its model and its four generators with the chosen
  functions.
\<close>

theorem model_family_by_prefix:
  "(startswith (model_type a) ''scaled_yolo4_'' \<or> startswith (model_type a) ''yolo5_'' \<longrightarrow>
      select_model a = Inr (get_yolo5_train_model, yolo5_data_generator_wrapper, False)) \<and>
   (startswith (model_type a) ''yolo3_'' \<or> startswith (model_type a) ''yolo4_'' \<longrightarrow>
      select_model a = Inr (get_yolo3_train_model, yolo3_data_generator_wrapper, False)) \<and>
   (startswith (model_type a) ''tiny_yolo3_'' \<or> startswith (model_type a) ''tiny_yolo4_'' \<longrightarrow>
      select_model a = Inr (get_yolo3_train_model, yolo3_data_generator_wrapper, True)) \<and>
   (startswith (model_type a) ''yolo2_'' \<or> startswith (model_type a) ''tiny_yolo2_'' \<longrightarrow>
      select_model a = Inr (get_yolo2_train_model, yolo2_data_generator_wrapper, False)) \<and>
   (\<forall>b. model_type b = model_type a \<longrightarrow> select_model b = select_model a) \<and>
   (snd (main e a) = None \<longrightarrow>
      (\<exists>g d t. select_model a = Inr (g, d, t) \<and>
         map fst (constructions (fst (main e a))) = [g] \<and>
         map (gen_fn \<circ> fit_generator) (fit_calls (fst (main e a))) = [d, d] \<and>
         map (gen_fn \<circ> fit_validation_data) (fit_calls (fst (main e a))) = [d, d]))"
proof (intro conjI impI allI)
  assume "startswith (model_type a) ''scaled_yolo4_'' \<or> startswith (model_type a) ''yolo5_''"
  then show "select_model a = Inr (get_yolo5_train_model, yolo5_data_generator_wrapper, False)"
    by (simp add: select_model_def)
next
  assume h: "startswith (model_type a) ''yolo3_'' \<or> startswith (model_type a) ''yolo4_''"
  then have "\<not> startswith (model_type a) ''scaled_yolo4_''" "\<not> startswith (model_type a) ''yolo5_''"
    by (auto dest: startswith_both)
  with h show "select_model a = Inr (get_yolo3_train_model, yolo3_data_generator_wrapper, False)"
    by (simp add: select_model_def)
next
  assume h: "startswith (model_type a) ''tiny_yolo3_'' \<or> startswith (model_type a) ''tiny_yolo4_''"
  then have "\<not> startswith (model_type a) ''scaled_yolo4_''" "\<not> startswith (model_type a) ''yolo5_''"
      "\<not> startswith (model_type a) ''yolo3_''" "\<not> startswith (model_type a) ''yolo4_''"
    by (auto dest: startswith_both)
  with h show "select_model a = Inr (get_yolo3_train_model, yolo3_data_generator_wrapper, True)"
    by (simp add: select_model_def)
next
  assume h: "startswith (model_type a) ''yolo2_'' \<or> startswith (model_type a) ''tiny_yolo2_''"
  then have "\<not> startswith (model_type a) ''scaled_yolo4_''" "\<not> startswith (model_type a) ''yolo5_''"
      "\<not> startswith (model_type a) ''yolo3_''" "\<not> startswith (model_type a) ''yolo4_''"
      "\<not> startswith (model_type a) ''tiny_yolo3_''" "\<not> startswith (model_type a) ''tiny_yolo4_''"
    by (auto dest: startswith_both)
  with h show "select_model a = Inr (get_yolo2_train_model, yolo2_data_generator_wrapper, False)"
    by (simp add: select_model_def)
next
  fix b :: args
  assume "model_type b = model_type a"
  then show "select_model b = select_model a" by (simp add: select_model_def)
next
  assume "snd (main e a) = None"
  then show "\<exists>g d t. select_model a = Inr (g, d, t) \<and>
         map fst (constructions (fst (main e a))) = [g] \<and>
         map (gen_fn \<circ> fit_generator) (fit_calls (fst (main e a))) = [d, d] \<and>
         map (gen_fn \<circ> fit_validation_data) (fit_calls (fst (main e a))) = [d, d]"
    by (elim main_observed) (simp add: run_fit_gen_fn)
qed

theorem model_family_by_prefix_witness:
  "startswith (model_type sample_args) ''yolo3_'' \<and>
   select_model sample_args =
     Inr (get_yolo3_train_model, yolo3_data_generator_wrapper, False) \<and>
   select_model (sample_args\<lparr>model_type := ''tiny_yolo4_mobilenet'', gpu_num := 4\<rparr>) =
     Inr (get_yolo3_train_model, yolo3_data_generator_wrapper, True) \<and>
   map fst (constructions (fst (main sample_env sample_args))) = [get_yolo3_train_model] \<and>
   map (gen_fn \<circ> fit_generator) (fit_calls (fst (main sample_env sample_args))) =
     [yolo3_data_generator_wrapper, yolo3_data_generator_wrapper]"
proof -
  have p: "startswith (model_type sample_args) ''yolo3_''"
    by (simp add: sample_args_def startswith_def)
  have s: "select_model sample_args =
     Inr (get_yolo3_train_model, yolo3_data_generator_wrapper, False)"
    using model_family_by_prefix[of sample_args sample_env] p by simp
  have t: "select_model (sample_args\<lparr>model_type := ''tiny_yolo4_mobilenet'', gpu_num := 4\<rparr>) =
     Inr (get_yolo3_train_model, yolo3_data_generator_wrapper, True)"
    using model_family_by_prefix
      [of "sample_args\<lparr>model_type := ''tiny_yolo4_mobilenet'', gpu_num := 4\<rparr>" sample_env]
    by (simp add: startswith_def)
  have r: "map fst (constructions (fst (main sample_env sample_args))) = [get_yolo3_train_model] \<and>
     map (gen_fn \<circ> fit_generator) (fit_calls (fst (main sample_env sample_args))) =
       [yolo3_data_generator_wrapper, yolo3_data_generator_wrapper]"
    using model_family_by_prefix[of sample_args sample_env] sample_run s by auto
  from p s t r show ?thesis by simp
qed

text \<open>
  C2, as amended. A run that returns makes exactly two fit calls, one after the other.
  The first runs from \<open>initial_epoch = init_epoch\<close> to
  \<open>epochs = init_epoch + transfer_epoch\<close>, the second from
  \<open>initial_epoch = init_epoch + transfer_epoch\<close> to \<open>epochs = total_epoch\<close>; both use
  \<open>steps_per_epoch = max(1, num_train // batch_size)\<close> and
  \<open>validation_steps = max(1, num_val // batch_size)\<close>. The two stages never overlap, and
  when \<open>0 \<le> transfer_epoch\<close> and \<open>init_epoch + transfer_epoch \<le> total_epoch\<close> they
  cover the epochs from \<open>init_epoch\<close> up to \<open>total_epoch\<close>.
\<close>

theorem two_stage_schedule:
  assumes "snd (main e a) = None" and "split_dataset e a = (ds, num_train, num_val)"
  shows "\<exists>f1 f2. fit_calls (fst (main e a)) = [f1, f2] \<and>
     fit_initial_epoch f1 = init_epoch a \<and>
     fit_epochs f1 = init_epoch a + transfer_epoch a \<and>
     fit_initial_epoch f2 = init_epoch a + transfer_epoch a \<and>
     fit_epochs f2 = total_epoch a \<and>
     batch_size a \<noteq> 0 \<and>
     fit_steps_per_epoch f1 = max 1 (num_train div batch_size a) \<and>
     fit_steps_per_epoch f2 = max 1 (num_train div batch_size a) \<and>
     fit_validation_steps f1 = max 1 (num_val div batch_size a) \<and>
     fit_validation_steps f2 = max 1 (num_val div batch_size a) \<and>
     set (stage_epochs f1) \<inter> set (stage_epochs f2) = {} \<and>
     (0 \<le> transfer_epoch a \<and> init_epoch a + transfer_epoch a \<le> total_epoch a \<longrightarrow>
        stage_epochs f1 @ stage_epochs f2 = [init_epoch a .. total_epoch a - 1])"
proof -
  from assms(1) obtain f1 f2 where fs: "fit_calls (fst (main e a)) = [f1, f2]"
    and e: "fit_initial_epoch f1 = init_epoch a" "fit_epochs f1 = init_epoch a + transfer_epoch a"
      "fit_initial_epoch f2 = init_epoch a + transfer_epoch a" "fit_epochs f2 = total_epoch a"
    and st: "fit_steps_per_epoch f1 = max 1 (num_train div batch_size a)"
      "fit_steps_per_epoch f2 = max 1 (num_train div batch_size a)"
      "fit_validation_steps f1 = max 1 (num_val div batch_size a)"
      "fit_validation_steps f2 = max 1 (num_val div batch_size a)"
    by (elim main_observed) (simp add: run_fit_fields split_dataset_parts[OF assms(2)])
  have dis: "set (stage_epochs f1) \<inter> set (stage_epochs f2) = {}"
    by (rule stage_epochs_disjoint) (simp add: e)
  have cov: "stage_epochs f1 @ stage_epochs f2 = [init_epoch a .. total_epoch a - 1]"
    if "0 \<le> transfer_epoch a \<and> init_epoch a + transfer_epoch a \<le> total_epoch a"
    using stage_epochs_cover[of f2 f1] that by (simp add: e)
  from fs e st dis cov main_batch_size[OF assms(1)] show ?thesis by blast
qed

theorem two_stage_schedule_witness:
  "snd (main sample_env sample_args) = None \<and>
   split_dataset sample_env sample_args =
     ([''l1'', ''l2'', ''l3'', ''l4'', ''l5'', ''l6'', ''l7'', ''l8''], 6, 2) \<and>
   map fit_initial_epoch (fit_calls (fst (main sample_env sample_args))) = [0, 20] \<and>
   map fit_epochs (fit_calls (fst (main sample_env sample_args))) = [20, 250] \<and>
   map fit_steps_per_epoch (fit_calls (fst (main sample_env sample_args))) = [1, 1] \<and>
   concat (map stage_epochs (fit_calls (fst (main sample_env sample_args)))) = [0 .. 249]"
proof -
  from two_stage_schedule[OF sample_run sample_split]
  obtain f1 f2 where "fit_calls (fst (main sample_env sample_args)) = [f1, f2]"
     "fit_initial_epoch f1 = init_epoch sample_args"
     "fit_epochs f1 = init_epoch sample_args + transfer_epoch sample_args"
     "fit_initial_epoch f2 = init_epoch sample_args + transfer_epoch sample_args"
     "fit_epochs f2 = total_epoch sample_args"
     "fit_steps_per_epoch f1 = max 1 (6 div batch_size sample_args)"
     "fit_steps_per_epoch f2 = max 1 (6 div batch_size sample_args)"
     "0 \<le> transfer_epoch sample_args \<and>
        init_epoch sample_args + transfer_epoch sample_args \<le> total_epoch sample_args \<longrightarrow>
        stage_epochs f1 @ stage_epochs f2 = [init_epoch sample_args .. total_epoch sample_args - 1]"
    by blast
  then show ?thesis
    using sample_run sample_split by (simp add: sample_args_def)
qed

text \<open>
  Where C2 as stated fails: the default 20 transfer epochs with \<open>total_epoch = 10\<close>.
  The first fit call runs to epoch 20, past \<open>total_epoch\<close>.
\<close>

theorem two_stage_schedule_counterexample:
  "snd (main sample_env (sample_args\<lparr>total_epoch := 10\<rparr>)) = None \<and>
   init_epoch (sample_args\<lparr>total_epoch := 10\<rparr>) = 0 \<and>
   total_epoch (sample_args\<lparr>total_epoch := 10\<rparr>) = 10 \<and>
   map fit_initial_epoch (fit_calls (fst (main sample_env (sample_args\<lparr>total_epoch := 10\<rparr>)))) =
     [0, 20] \<and>
   map fit_epochs (fit_calls (fst (main sample_env (sample_args\<lparr>total_epoch := 10\<rparr>)))) =
     [20, 10] \<and>
   concat (map stage_epochs (fit_calls (fst (main sample_env (sample_args\<lparr>total_epoch := 10\<rparr>)))))
     \<noteq> [0 .. 10 - 1]"
proof -
  let ?a = "sample_args\<lparr>total_epoch := 10\<rparr>"
  have sel: "select_model ?a = Inr (get_yolo3_train_model, yolo3_data_generator_wrapper, False)"
    by (simp add: select_model_def startswith_def sample_args_def)
  have ok: "snd (main sample_env ?a) = None"
    by (simp add: main_outcome sel) (simp add: sample_args_def)
  have vals: "init_epoch ?a = 0" "total_epoch ?a = 10" "transfer_epoch ?a = 20"
    by (simp_all add: sample_args_def)
  from ok obtain f1 f2 where fs: "fit_calls (fst (main sample_env ?a)) = [f1, f2]"
    and e: "fit_initial_epoch f1 = 0" "fit_epochs f1 = 20" "fit_initial_epoch f2 = 20"
      "fit_epochs f2 = 10"
    by (elim main_observed) (simp add: run_fit_fields vals)
  have len: "length (concat (map stage_epochs [f1, f2])) = 20"
    by (simp add: stage_epochs_def e)
  have "concat (map stage_epochs [f1, f2]) \<noteq> [0 .. 10 - 1]"
  proof
    assume "concat (map stage_epochs [f1, f2]) = [0 .. 10 - 1]"
    then have "length (concat (map stage_epochs [f1, f2])) = length [0 .. (10::int) - 1]"
      by simp
    with len show False by simp
  qed
  with ok vals fs e show ?thesis by simp
qed

text \<open>
  C3. In a run that returns, between the first fit call and the second the model is
  recompiled, inside the strategy scope exactly when \<open>gpu_num \<ge> 2\<close>, and the model
  compiled and then trained by the second fit call has the layers of the first fit call's
  model, in the same order and number, every one of them with \<open>trainable\<close> true: the
  fine-tune stage trains a fully unfrozen network, with one GPU or with several.
\<close>

theorem finetune_unfrozen:
  assumes "snd (main e a) = None"
  shows "\<exists>pre m1 f1 m2 opt f2 post.
     fst (main e a) =
       pre @ [FitGenerator m1 f1, Sleep 2, Compile (2 \<le> gpu_num a) m2 opt, FitGenerator m2 f2] @
       post \<and>
     fit_calls pre = [] \<and> fit_calls post = [] \<and>
     length (layers m2) = length (layers m1) \<and>
     (\<forall>i<length (layers m1).
        trainable (layers m2 ! i) \<and> layer_name (layers m2 ! i) = layer_name (layers m1 ! i))"
proof -
  from assms obtain g d t cs opt where
    tr: "fst (main e a) =
       run_construct e a g @
       [FitGenerator (build_model e g (run_call e a))
          (run_fit e a d (run_dataset e a) (init_epoch a + transfer_epoch a) (init_epoch a)
             (run_callbacks e a)),
        Sleep 2,
        Compile (gpu_num a \<ge> 2) (unfreeze (build_model e g (run_call e a))) opt,
        FitGenerator (unfreeze (build_model e g (run_call e a)))
          (run_fit e a d
             (if data_shuffle a then shuffle_dataset e (run_dataset e a) else run_dataset e a)
             (total_epoch a) (init_epoch a + transfer_epoch a) cs)] @
       run_store a"
    by (rule main_trace)
  let ?m1 = "build_model e g (run_call e a)"
  have len: "length (layers (unfreeze ?m1)) = length (layers ?m1)"
    by (simp add: layers_unfreeze)
  have all: "\<forall>i<length (layers ?m1).
      trainable (layers (unfreeze ?m1) ! i) \<and>
      layer_name (layers (unfreeze ?m1) ! i) = layer_name (layers ?m1 ! i)"
    by (simp add: layers_unfreeze)
  from tr len all run_construct_observed(1)[of e a g] run_store_observed(1)[of a]
  show ?thesis by blast
qed

theorem finetune_unfrozen_witness:
  "snd (main sample_env sample_args) = None \<and>
   (\<exists>pre m1 f1 m2 opt f2 post.
      fst (main sample_env sample_args) =
        pre @ [FitGenerator m1 f1, Sleep 2, Compile False m2 opt, FitGenerator m2 f2] @ post \<and>
      fit_calls pre = [] \<and> fit_calls post = [] \<and>
      length (layers m2) = length (layers m1) \<and>
      list_all trainable (layers m2) \<and>
      map layer_name (layers m2) = map layer_name (layers m1))"
proof -
  from finetune_unfrozen[OF sample_run]
  obtain pre m1 f1 m2 opt f2 post where
    tr: "fst (main sample_env sample_args) =
       pre @ [FitGenerator m1 f1, Sleep 2, Compile (2 \<le> gpu_num sample_args) m2 opt,
              FitGenerator m2 f2] @ post"
    and fc: "fit_calls pre = []" "fit_calls post = []"
    and len: "length (layers m2) = length (layers m1)"
    and all: "\<forall>i<length (layers m1).
        trainable (layers m2 ! i) \<and> layer_name (layers m2 ! i) = layer_name (layers m1 ! i)"
    by blast
  have g: "\<not> 2 \<le> gpu_num sample_args" by (simp add: sample_args_def)
  have t: "list_all trainable (layers m2)"
    using all len by (simp add: list_all_length)
  have n: "map layer_name (layers m2) = map layer_name (layers m1)"
    using all len by (intro nth_equalityI) simp_all
  from tr g have tr': "fst (main sample_env sample_args) =
       pre @ [FitGenerator m1 f1, Sleep 2, Compile False m2 opt, FitGenerator m2 f2] @ post"
    by simp
  from tr' fc len t n sample_run show ?thesis by blast
qed









text \<open>
  C7. In a run that returns, with \<open>decay_type\<close> or \<open>average_type\<close> set (a non-empty
  string) the model is recompiled between the two fit calls with a new optimizer whose
  \<open>decay_steps\<close> is
  \<open>max(1, num_train // batch_size) * (total_epoch - init_epoch - transfer_epoch)\<close>. With
  \<open>decay_type\<close> set, \<open>ReduceLROnPlateau\<close> is in the callbacks of the first fit call and
  not in those of the second. With \<open>average_type\<close> \<^verbatim>\<open>ema\<close> or \<^verbatim>\<open>swa\<close>, the
  \<open>ModelCheckpoint\<close> is removed as well and an \<open>AverageModelCheckpoint\<close> stands
  immediately before the last element of what is left; with any other \<open>average_type\<close>
  (\<^verbatim>\<open>lookahead\<close>, or none) the checkpoint stays and nothing is inserted. With neither
  option set, the second fit call has the callback list of the first and the model is
  recompiled with the optimizer its constructor was given.
\<close>

theorem finetune_optimizer_and_callbacks:
  assumes "snd (main e a) = None" and "split_dataset e a = (ds, num_train, num_val)"
  shows "\<exists>g s call f1 f2 opt c1 c2.
     constructions (fst (main e a)) = [(g, s, call)] \<and>
     fit_calls (fst (main e a)) = [f1, f2] \<and>
     compiles (fst (main e a)) = [(2 \<le> gpu_num a, opt)] \<and>
     c1 = (if truthy (decay_type a) then remove1 ReduceLROnPlateau (fit_callbacks f1)
           else fit_callbacks f1) \<and>
     c2 = remove1
            (ModelCheckpoint ''logs/000/ep{epoch:03d}-loss{loss:.3f}-val_loss{val_loss:.3f}.h5'')
            c1 \<and>
     (truthy (decay_type a) \<or> truthy (average_type a) \<longrightarrow>
        opt = Optimizer (optimizer a) (learning_rate a) (average_type a) (decay_type a)
                (Some (max 1 (num_train div batch_size a) *
                       (total_epoch a - init_epoch a - transfer_epoch a)))) \<and>
     ReduceLROnPlateau \<in> set (fit_callbacks f1) \<and>
     ModelCheckpoint ''logs/000/ep{epoch:03d}-loss{loss:.3f}-val_loss{val_loss:.3f}.h5''
       \<in> set (fit_callbacks f1) \<and>
     (truthy (decay_type a) \<longrightarrow> ReduceLROnPlateau \<notin> set (fit_callbacks f2)) \<and>
     (average_type a = Some ''ema'' \<or> average_type a = Some ''swa'' \<longrightarrow>
        ModelCheckpoint ''logs/000/ep{epoch:03d}-loss{loss:.3f}-val_loss{val_loss:.3f}.h5''
          \<notin> set (fit_callbacks f2) \<and>
        c2 \<noteq> [] \<and>
        fit_callbacks f2 =
          butlast c2 @
          [AverageModelCheckpoint
             ''logs/000/ep{epoch:03d}-loss{loss:.3f}-val_loss{val_loss:.3f}.h5'',
           last c2]) \<and>
     (\<not> (average_type a = Some ''ema'' \<or> average_type a = Some ''swa'') \<longrightarrow>
        fit_callbacks f2 = c1) \<and>
     (\<not> truthy (decay_type a) \<and> \<not> truthy (average_type a) \<longrightarrow>
        fit_callbacks f2 = fit_callbacks f1 \<and> opt = tm_optimizer call)"
proof -
  from assms(1) obtain g d t cs opt where
    r: "rebuild a log_dir (run_num_train e a) (run_callbacks e a) (run_optimizer a) = Inr (cs, opt)"
    and fc: "fit_calls (fst (main e a)) =
       [run_fit e a d (run_dataset e a) (init_epoch a + transfer_epoch a) (init_epoch a)
          (run_callbacks e a),
        run_fit e a d
          (if data_shuffle a then shuffle_dataset e (run_dataset e a) else run_dataset e a)
          (total_epoch a) (init_epoch a + transfer_epoch a) cs]"
    and co: "constructions (fst (main e a)) = [(g, 2 \<le> gpu_num a, run_call e a)]"
    and cp: "compiles (fst (main e a)) = [(2 \<le> gpu_num a, opt)]"
    by (rule main_observed)
  define f1 where "f1 = run_fit e a d (run_dataset e a) (init_epoch a + transfer_epoch a)
      (init_epoch a) (run_callbacks e a)"
  define f2 where "f2 = run_fit e a d
      (if data_shuffle a then shuffle_dataset e (run_dataset e a) else run_dataset e a)
      (total_epoch a) (init_epoch a + transfer_epoch a) cs"
  define c1 where "c1 = (if truthy (decay_type a)
      then remove1 ReduceLROnPlateau (fit_callbacks f1) else fit_callbacks f1)"
  define c2 where "c2 = remove1
      (ModelCheckpoint ''logs/000/ep{epoch:03d}-loss{loss:.3f}-val_loss{val_loss:.3f}.h5'') c1"
  have cb: "fit_callbacks f1 = run_callbacks e a" "fit_callbacks f2 = cs"
    by (simp_all add: f1_def f2_def run_fit_fields)
  have nt: "run_num_train e a = num_train" by (rule split_dataset_parts[OF assms(2)])
  have B: "fit_calls (fst (main e a)) = [f1, f2]"
    using fc by (simp add: f1_def f2_def)
  have o: "opt = (if truthy (decay_type a) \<or> truthy (average_type a)
                then Optimizer (optimizer a) (learning_rate a) (average_type a) (decay_type a)
                       (Some (max 1 (num_train div batch_size a) *
                              (total_epoch a - init_epoch a - transfer_epoch a)))
                else run_optimizer a)"
    using rebuild_optimizer[OF r run_callbacks_members] by (simp add: nt)
  have F: "truthy (decay_type a) \<or> truthy (average_type a) \<longrightarrow>
        opt = Optimizer (optimizer a) (learning_rate a) (average_type a) (decay_type a)
                (Some (max 1 (num_train div batch_size a) *
                       (total_epoch a - init_epoch a - transfer_epoch a)))"
    using o by simp
  have G: "ReduceLROnPlateau \<in> set (fit_callbacks f1)"
    and H: "ModelCheckpoint ''logs/000/ep{epoch:03d}-loss{loss:.3f}-val_loss{val_loss:.3f}.h5''
       \<in> set (fit_callbacks f1)"
    using run_callbacks_members[of e a] by (simp_all add: cb checkpoint_path)
  note rc = rebuild_callbacks[OF r, unfolded checkpoint_path, folded cb(1), folded c1_def,
      folded c2_def]
  have I: "truthy (decay_type a) \<longrightarrow> ReduceLROnPlateau \<notin> set (fit_callbacks f2)"
    using rc(1) by (simp add: cb)
  have J: "average_type a = Some ''ema'' \<or> average_type a = Some ''swa'' \<longrightarrow>
        ModelCheckpoint ''logs/000/ep{epoch:03d}-loss{loss:.3f}-val_loss{val_loss:.3f}.h5''
          \<notin> set (fit_callbacks f2) \<and>
        c2 \<noteq> [] \<and>
        fit_callbacks f2 =
          butlast c2 @
          [AverageModelCheckpoint
             ''logs/000/ep{epoch:03d}-loss{loss:.3f}-val_loss{val_loss:.3f}.h5'',
           last c2]"
    using rc(2) unfolding cb by blast
  have K: "\<not> (average_type a = Some ''ema'' \<or> average_type a = Some ''swa'') \<longrightarrow>
        fit_callbacks f2 = c1"
    using rc(3) unfolding cb by blast
  have L: "\<not> truthy (decay_type a) \<and> \<not> truthy (average_type a) \<longrightarrow>
        fit_callbacks f2 = fit_callbacks f1 \<and> opt = tm_optimizer (run_call e a)"
    using r o by (auto simp: rebuild_unchanged cb run_call_def)
  from co B cp c1_def c2_def F G H I J K L show ?thesis by blast
qed

theorem finetune_optimizer_and_callbacks_witness:
  "snd (main sample_env
          (sample_args\<lparr>average_type := Some ''ema'', decay_type := Some ''cosine''\<rparr>)) = None \<and>
   map fit_callbacks
     (fit_calls (fst (main sample_env
        (sample_args\<lparr>average_type := Some ''ema'', decay_type := Some ''cosine''\<rparr>)))) =
     [[TensorBoard ''logs/000'',
       ModelCheckpoint ''logs/000/ep{epoch:03d}-loss{loss:.3f}-val_loss{val_loss:.3f}.h5'',
       ReduceLROnPlateau, EarlyStopping, TerminateOnNaN, CheckpointCleanCallBack ''logs/000''],
      [TensorBoard ''logs/000'', EarlyStopping, TerminateOnNaN,
       AverageModelCheckpoint ''logs/000/ep{epoch:03d}-loss{loss:.3f}-val_loss{val_loss:.3f}.h5'',
       CheckpointCleanCallBack ''logs/000'']] \<and>
   compiles (fst (main sample_env
        (sample_args\<lparr>average_type := Some ''ema'', decay_type := Some ''cosine''\<rparr>))) =
     [(False, Optimizer ''adam'' (1 / 1024) (Some ''ema'') (Some ''cosine'') (Some 230))]"
proof -
  let ?a = "sample_args\<lparr>average_type := Some ''ema'', decay_type := Some ''cosine''\<rparr>"
  let ?ck = "''logs/000/ep{epoch:03d}-loss{loss:.3f}-val_loss{val_loss:.3f}.h5''"
  have sel: "select_model ?a = Inr (get_yolo3_train_model, yolo3_data_generator_wrapper, False)"
    by (simp add: select_model_def startswith_def sample_args_def)
  have ok: "snd (main sample_env ?a) = None"
    by (simp add: main_outcome sel) (simp add: sample_args_def)
  have sp: "split_dataset sample_env ?a =
     ([''l1'', ''l2'', ''l3'', ''l4'', ''l5'', ''l6'', ''l7'', ''l8''], 6, 2)"
    by (simp add: split_dataset_def sample_env_def sample_args_def truthy_def py_int_def)
  have first: "fit_callbacks (hd (fit_calls (fst (main sample_env ?a)))) =
      [TensorBoard ''logs/000'', ModelCheckpoint ?ck, ReduceLROnPlateau, EarlyStopping,
       TerminateOnNaN, CheckpointCleanCallBack ''logs/000'']"
    using ok
    by (elim main_observed)
      (simp add: run_fit_fields run_callbacks_def initial_callbacks_eq log_dir_eval
        checkpoint_name_def os_path_join_def startswith_def sample_args_def)
  from finetune_optimizer_and_callbacks[OF ok sp]
  obtain g s call f1 f2 opt c1 c2 where
    fc: "fit_calls (fst (main sample_env ?a)) = [f1, f2]"
    and cp: "compiles (fst (main sample_env ?a)) = [(2 \<le> gpu_num ?a, opt)]"
    and c1: "c1 = (if truthy (decay_type ?a) then remove1 ReduceLROnPlateau (fit_callbacks f1)
           else fit_callbacks f1)"
    and c2: "c2 = remove1 (ModelCheckpoint ?ck) c1"
    and o: "truthy (decay_type ?a) \<or> truthy (average_type ?a) \<longrightarrow>
        opt = Optimizer (optimizer ?a) (learning_rate ?a) (average_type ?a) (decay_type ?a)
                (Some (max 1 (6 div batch_size ?a) *
                       (total_epoch ?a - init_epoch ?a - transfer_epoch ?a)))"
    and av: "average_type ?a = Some ''ema'' \<or> average_type ?a = Some ''swa'' \<longrightarrow>
        ModelCheckpoint ?ck \<notin> set (fit_callbacks f2) \<and> c2 \<noteq> [] \<and>
        fit_callbacks f2 = butlast c2 @ [AverageModelCheckpoint ?ck, last c2]"
    by blast
  from first fc have f1: "fit_callbacks f1 =
      [TensorBoard ''logs/000'', ModelCheckpoint ?ck, ReduceLROnPlateau, EarlyStopping,
       TerminateOnNaN, CheckpointCleanCallBack ''logs/000'']"
    by simp
  have c2v: "c2 = [TensorBoard ''logs/000'', EarlyStopping, TerminateOnNaN,
       CheckpointCleanCallBack ''logs/000'']"
    by (simp add: c2 c1 f1 truthy_def)
  have f2: "fit_callbacks f2 = [TensorBoard ''logs/000'', EarlyStopping, TerminateOnNaN,
       AverageModelCheckpoint ?ck, CheckpointCleanCallBack ''logs/000'']"
    using av by (simp add: c2v)
  have ov: "opt = Optimizer ''adam'' (1 / 1024) (Some ''ema'') (Some ''cosine'') (Some 230)"
    using o by (simp add: truthy_def sample_args_def)
  have g: "\<not> 2 \<le> gpu_num ?a" by (simp add: sample_args_def)
  from ok fc f1 f2 cp ov g show ?thesis by simp
qed





text \<open>
  C10. The freeze level of the transfer stage: \<open>freeze_level\<close>, when given, is used
  unchanged; otherwise it is 0 with a (non-empty) \<open>weights_path\<close> and 1 without one.
  It is the freeze level the model constructor is called with.
\<close>

theorem freeze_level_precedence:
  "(\<forall>l. freeze_level a = Some l \<longrightarrow> get_freeze_level a = l) \<and>
   (freeze_level a = None \<and> truthy (weights_path a) \<longrightarrow> get_freeze_level a = 0) \<and>
   (freeze_level a = None \<and> \<not> truthy (weights_path a) \<longrightarrow> get_freeze_level a = 1) \<and>
   (snd (main e a) = None \<longrightarrow>
      map (tm_freeze_level \<circ> snd \<circ> snd) (constructions (fst (main e a))) = [get_freeze_level a])"
proof (intro conjI impI allI)
  assume "snd (main e a) = None"
  from main_constructions[OF this]
  show "map (tm_freeze_level \<circ> snd \<circ> snd) (constructions (fst (main e a))) = [get_freeze_level a]"
    by (auto simp: run_call_def)
qed (simp_all add: get_freeze_level_def)

theorem freeze_level_precedence_witness:
  "get_freeze_level (sample_args\<lparr>freeze_level := Some 2, weights_path := Some ''weights.h5''\<rparr>) = 2 \<and>
   get_freeze_level (sample_args\<lparr>weights_path := Some ''weights.h5''\<rparr>) = 0 \<and>
   get_freeze_level sample_args = 1 \<and>
   map (tm_freeze_level \<circ> snd \<circ> snd) (constructions (fst (main sample_env sample_args))) = [1]"
proof -
  have "get_freeze_level (sample_args\<lparr>freeze_level := Some 2, weights_path := Some ''weights.h5''\<rparr>) = 2"
    using freeze_level_precedence
      [of "sample_args\<lparr>freeze_level := Some 2, weights_path := Some ''weights.h5''\<rparr>" sample_env]
    by simp
  moreover have "get_freeze_level (sample_args\<lparr>weights_path := Some ''weights.h5''\<rparr>) = 0"
    using freeze_level_precedence [of "sample_args\<lparr>weights_path := Some ''weights.h5''\<rparr>" sample_env]
    by (simp add: sample_args_def truthy_def)
  moreover have one: "get_freeze_level sample_args = 1"
    using freeze_level_precedence [of sample_args sample_env]
    by (simp add: sample_args_def truthy_def)
  moreover have "map (tm_freeze_level \<circ> snd \<circ> snd) (constructions (fst (main sample_env sample_args))) = [1]"
    using freeze_level_precedence [of sample_args sample_env] sample_run one by simp
  ultimately show ?thesis by simp
qed

end
